theory Spec2Isabelle
  imports Complex_Main "HOL-Library.Multiset" "HOL-Library.Code_Target_Nat"
begin

section \<open>Neutron detector network: data model\<close>

text \<open>
  The development embeds \<^verbatim>\<open>src/neutron_detector.py\<close>. Conventions of the embedding:
  \<^item> A finite Python float is the real number it denotes, and every float operation
    rounds its exact result to the nearest double (\<open>binary64\<close> below). Infinities and
    NaN are outside the model. Division keeps its failure: dividing by zero raises
    \<open>ZeroDivisionError\<close>.
  \<^item> A naive \<^verbatim>\<open>datetime\<close> is the number of microseconds since
    \<^verbatim>\<open>datetime.min\<close> (0001-01-01T00:00:00). The store keeps the
    \<^verbatim>\<open>isoformat()\<close> text; for naive datetimes that text is compared by SQLite
    exactly as the datetimes compare, so the model keeps the number.
  \<^item> Every value read from outside the program is an argument: the wall clock
    (\<^verbatim>\<open>datetime.now()\<close>, one argument per read, in no assumed order) and the
    token \<^verbatim>\<open>str(uuid.uuid4())[:8]\<close>.
  \<^item> The two SQLite tables are lists in rowid (insertion) order; the position of a
    reading in its list is its autoincrement id.
  \<^item> Failures of the file system and of the SQLite connection are outside the model.
\<close>

type_synonym datetime = int

text \<open>The table \<^verbatim>\<open>detectors\<close> (nine columns, \<^verbatim>\<open>_init_db\<close>).\<close>

record detector_row =
  det_id :: string
  det_name :: string
  det_location :: string
  det_type :: string
  det_sensitivity :: real
  det_baseline_cps :: real
  det_status :: string
  det_last_calibration :: datetime
  det_alert_threshold :: real

text \<open>
  The dataclass \<^verbatim>\<open>NeutronReading\<close>; the table \<^verbatim>\<open>readings\<close> holds the same five
  columns after its autoincrement id.
\<close>

record NeutronReading =
  detector_id :: string
  cps :: real
  dose_usv_h :: real
  timestamp :: datetime
  alert_triggered :: bool

record db =
  detectors :: "detector_row list"
  readings :: "NeutronReading list"

text \<open>The exceptions the modelled operations raise.\<close>

datatype py_exception =
    ValueError string
  | ZeroDivisionError
  | IntegrityError
  | OverflowError

text \<open>The name of an exception's class, as \<^verbatim>\<open>type(e).__name__\<close> gives it.\<close>

fun class_name :: "py_exception \<Rightarrow> string" where
  "class_name (ValueError msg) = ''ValueError''"
| "class_name ZeroDivisionError = ''ZeroDivisionError''"
| "class_name IntegrityError = ''IntegrityError''"
| "class_name OverflowError = ''OverflowError''"

section \<open>Float arithmetic\<close>

text \<open>
  Rounding to the nearest double. \<open>bit_length\<close> is the number of binary digits of a
  natural number; \<open>float_exponent a\<close> is, for positive \<open>a\<close>, the integer \<open>e\<close> with
  \<open>2 ^ e \<le> a < 2 ^ (e + 1)\<close>. A double has a significand of 53 bits, so the doubles
  next to \<open>a\<close> are the multiples of \<open>2 ^ (e - 52)\<close>; below \<open>2 ^ (- 1022)\<close> the spacing
  stays \<open>2 ^ (- 1074)\<close> (subnormal numbers). \<open>binary64 x\<close> is the multiple nearest to
  \<open>x\<close>, a tie going to the even one. A result beyond the largest double, which Python
  represents as \<open>inf\<close>, has no counterpart here.
\<close>

fun bit_length :: "nat \<Rightarrow> nat" where
  "bit_length n = (if n = 0 then 0 else Suc (bit_length (n div 2)))"

declare bit_length.simps [simp del]

definition round_half_even :: "real \<Rightarrow> int" where
  "round_half_even y =
     (let f = \<lfloor>y\<rfloor>; d = y - of_int f
      in if d < 1 / 2 then f
         else if 1 / 2 < d then f + 1
         else if even f then f else f + 1)"

definition pow2 :: "int \<Rightarrow> real" where
  "pow2 k = (if 0 \<le> k then 2 ^ nat k else 1 / 2 ^ nat (- k))"

definition float_exponent :: "real \<Rightarrow> int" where
  "float_exponent a =
     (if 1 \<le> a then int (bit_length (nat \<lfloor>a\<rfloor>)) - 1
      else - int (bit_length (nat (\<lceil>1 / a\<rceil> - 1))))"

definition binary64 :: "real \<Rightarrow> real" where
  "binary64 x =
     (if x = 0 then 0
      else let a = \<bar>x\<bar>;
               e = max (float_exponent a) (- 1022);
               q = pow2 (e - 52)
           in sgn x * of_int (round_half_even (a / q)) * q)"

text \<open>
  The float operations of the source: \<^verbatim>\<open>a * b\<close>, \<^verbatim>\<open>a + b\<close>, \<^verbatim>\<open>a / b\<close> (which
  raises when \<open>b\<close> is zero), \<^verbatim>\<open>round(x, 2)\<close> (the decimal with two places nearest to
  the double \<open>x\<close>, a tie going to the even one, converted back to a double) and
  \<^verbatim>\<open>sum\<close> over floats (starting from 0, one rounded addition per element, from left
  to right, as CPython up to 3.11 accumulates; from 3.12 on it compensates the rounding
  error of the additions, which this model does not follow).
\<close>

definition float_mul :: "real \<Rightarrow> real \<Rightarrow> real" where
  "float_mul a b = binary64 (a * b)"


definition py_truediv :: "real \<Rightarrow> real \<Rightarrow> py_exception + real" where
  "py_truediv a b = (if b = 0 then Inl ZeroDivisionError else Inr (binary64 (a / b)))"

definition py_round2 :: "real \<Rightarrow> real" where
  "py_round2 x = binary64 (of_int (round_half_even (x * 100)) / 100)"




section \<open>Constants and library operations\<close>

text \<open>
  \<^verbatim>\<open>CPS_TO_DOSE\<close>, each decimal literal being the double nearest to it, and
  \<^verbatim>\<open>dict.get(key, default)\<close>.
\<close>

definition CPS_TO_DOSE :: "(string \<times> real) list" where
  "CPS_TO_DOSE =
     [(''he3_tube'', binary64 0.0064),
      (''boron_lined'', binary64 0.0042),
      (''scintillator'', binary64 0.0055),
      (''fission_chamber'', binary64 0.0075),
      (''activation_foil'', binary64 0.0045)]"

definition dict_get :: "('k \<times> 'v) list \<Rightarrow> 'k \<Rightarrow> 'v \<Rightarrow> 'v" where
  "dict_get d k dflt = (case map_of d k of None \<Rightarrow> dflt | Some v \<Rightarrow> v)"

text \<open>
  \<^verbatim>\<open>datetime.max\<close> in microseconds (9999-12-31T23:59:59.999999, day 3652059 of the
  proleptic calendar), and \<^verbatim>\<open>datetime.now() - timedelta(hours=hours)\<close>, which
  raises \<open>OverflowError\<close> when the result leaves the range of \<^verbatim>\<open>datetime\<close>.
\<close>

definition DATETIME_MAX :: datetime where
  "DATETIME_MAX = 3652059 * 86400000000 - 1"

definition hours_before :: "datetime \<Rightarrow> int \<Rightarrow> py_exception + datetime" where
  "hours_before now hours =
     (let since = now - hours * 3600000000
      in if since < 0 \<or> DATETIME_MAX < since then Inl OverflowError else Inr since)"

section \<open>Queries on the store\<close>

text \<open>\<^verbatim>\<open>SELECT ... FROM detectors WHERE id = ?\<close> followed by \<^verbatim>\<open>fetchone()\<close>.\<close>

definition fetch_detector :: "db \<Rightarrow> string \<Rightarrow> detector_row option" where
  "fetch_detector s did = find (\<lambda>d. det_id d = did) (detectors s)"

text \<open>
  \<^verbatim>\<open>SELECT ... FROM readings WHERE detector_id = ? ORDER BY timestamp DESC LIMIT 1\<close>
  followed by \<^verbatim>\<open>fetchone()\<close>. SQLite leaves the order of equal timestamps open; the
  model sorts stably, so the row of lowest id comes first among them.
\<close>

definition latest_reading :: "db \<Rightarrow> string \<Rightarrow> NeutronReading option" where
  "latest_reading s did =
     (case sort_key (\<lambda>r. - timestamp r) (filter (\<lambda>r. detector_id r = did) (readings s)) of
        [] \<Rightarrow> None
      | r # _ \<Rightarrow> Some r)"

text \<open>
  \<^verbatim>\<open>SELECT timestamp, cps FROM readings WHERE detector_id = ? AND timestamp >= ?
  ORDER BY timestamp\<close>.
\<close>

definition select_spectrum :: "db \<Rightarrow> string \<Rightarrow> datetime \<Rightarrow> (datetime \<times> real) list" where
  "select_spectrum s did since =
     map (\<lambda>r. (timestamp r, cps r))
       (sort_key timestamp
          (filter (\<lambda>r. detector_id r = did \<and> since \<le> timestamp r) (readings s)))"

section \<open>Operations of \<^verbatim>\<open>NeutronDetectorNetwork\<close>\<close>

text \<open>
  \<^verbatim>\<open>register_detector\<close>. \<open>new_id\<close> is the token drawn from \<^verbatim>\<open>uuid4\<close>; the primary
  key of \<^verbatim>\<open>detectors\<close> rejects a token that is already stored.
\<close>

definition register_detector ::
    "db \<Rightarrow> string \<Rightarrow> datetime \<Rightarrow> string \<Rightarrow> string \<Rightarrow> string \<Rightarrow> real \<Rightarrow> py_exception + (db \<times> string)" where
  "register_detector s new_id now nm loc detector_type sensitivity =
     (if new_id \<in> set (map det_id (detectors s)) then Inl IntegrityError
      else Inr (s\<lparr>detectors := detectors s @
                  [\<lparr>det_id = new_id, det_name = nm, det_location = loc,
                    det_type = detector_type, det_sensitivity = sensitivity,
                    det_baseline_cps = 0, det_status = ''online'',
                    det_last_calibration = now, det_alert_threshold = 100\<rparr>]\<rparr>,
                new_id))"

text \<open>\<^verbatim>\<open>record_reading\<close>.\<close>

definition record_reading ::
    "db \<Rightarrow> string \<Rightarrow> real \<Rightarrow> datetime \<Rightarrow> py_exception + (db \<times> NeutronReading)" where
  "record_reading s did c now =
     (case fetch_detector s did of
        None \<Rightarrow> Inl (ValueError (''Detector '' @ did @ '' not found''))
      | Some detector_row \<Rightarrow>
          (let conversion_factor =
                 dict_get CPS_TO_DOSE (det_type detector_row) (binary64 0.005);
               dose = float_mul c conversion_factor;
               alert_flag = (c > det_alert_threshold detector_row);
               r = \<lparr>detector_id = did, cps = c, dose_usv_h = dose,
                    timestamp = now, alert_triggered = alert_flag\<rparr>
           in Inr (s\<lparr>readings := readings s @ [r]\<rparr>, r)))"

text \<open>\<^verbatim>\<open>set_threshold\<close>: an \<^verbatim>\<open>UPDATE ... WHERE id = ?\<close>, then \<^verbatim>\<open>return True\<close>.\<close>

definition set_threshold :: "db \<Rightarrow> string \<Rightarrow> real \<Rightarrow> db \<times> bool" where
  "set_threshold s did alert_cps =
     (s\<lparr>detectors :=
          map (\<lambda>d. if det_id d = did then d\<lparr>det_alert_threshold := alert_cps\<rparr> else d)
            (detectors s)\<rparr>,
      True)"

text \<open>
  \<^verbatim>\<open>fleet_status\<close>. The dictionaries it returns have a fixed set of keys and are a
  record here; the loop over the detector rows is the recursion.
\<close>

record status_entry =
  st_id :: string
  st_name :: string
  st_location :: string
  st_type :: string
  st_status :: string
  st_cps :: real
  st_dose_usv_h :: real
  st_timestamp :: datetime

fun fleet_loop :: "db \<Rightarrow> detector_row list \<Rightarrow> status_entry list \<Rightarrow> status_entry list" where
  "fleet_loop s [] status_list = status_list"
| "fleet_loop s (detector # rest) status_list =
     (case latest_reading s (det_id detector) of
        None \<Rightarrow> fleet_loop s rest status_list
      | Some reading \<Rightarrow>
          fleet_loop s rest
            (status_list @
               [\<lparr>st_id = det_id detector, st_name = det_name detector,
                 st_location = det_location detector, st_type = det_type detector,
                 st_status = det_status detector, st_cps = cps reading,
                 st_dose_usv_h = dose_usv_h reading, st_timestamp = timestamp reading\<rparr>]))"

definition fleet_status :: "db \<Rightarrow> status_entry list" where
  "fleet_status s = fleet_loop s (detectors s) []"

text \<open>
  \<^verbatim>\<open>anomaly_scan\<close>. The division \<^verbatim>\<open>cps / baseline\<close> is evaluated while the entry is
  built, so its exception leaves the loop and the call.
\<close>

record anomaly =
  an_detector_id :: string
  an_baseline_cps :: real
  an_current_cps :: real
  an_multiplier :: real
  an_timestamp :: datetime

fun anomaly_loop :: "db \<Rightarrow> detector_row list \<Rightarrow> anomaly list \<Rightarrow> py_exception + anomaly list" where
  "anomaly_loop s [] anomalies = Inr anomalies"
| "anomaly_loop s (detector # rest) anomalies =
     (let baseline = det_baseline_cps detector
      in case latest_reading s (det_id detector) of
           None \<Rightarrow> anomaly_loop s rest anomalies
         | Some reading \<Rightarrow>
             if cps reading > float_mul baseline 3 then
               (case py_truediv (cps reading) baseline of
                  Inl e \<Rightarrow> Inl e
                | Inr q \<Rightarrow>
                    anomaly_loop s rest
                      (anomalies @
                         [\<lparr>an_detector_id = det_id detector, an_baseline_cps = baseline,
                           an_current_cps = cps reading, an_multiplier = py_round2 q,
                           an_timestamp = timestamp reading\<rparr>]))
             else anomaly_loop s rest anomalies)"

definition anomaly_scan :: "db \<Rightarrow> py_exception + anomaly list" where
  "anomaly_scan s = anomaly_loop s (detectors s) []"

text \<open>\<^verbatim>\<open>get_spectrum\<close>; \<open>now\<close> is the clock read at the start of the call.\<close>

definition get_spectrum ::
    "db \<Rightarrow> string \<Rightarrow> int \<Rightarrow> datetime \<Rightarrow> py_exception + (datetime \<times> real) list" where
  "get_spectrum s did hours now =
     (case hours_before now hours of
        Inl e \<Rightarrow> Inl e
      | Inr since \<Rightarrow> Inr (select_spectrum s did since))"


section \<open>Example stores\<close>

text \<open>
  The stores used to evaluate the operations. \<open>CLOCK\<close> is 2026-01-01T00:00:00
  (day 739617 of the calendar). The doses are the doubles that \<^verbatim>\<open>record_reading\<close>
  computes: Python prints them as 0.032, 0.05499999999999999, 0.27499999999999997,
  0.0055 and 0.011.
\<close>

definition CLOCK :: datetime where
  "CLOCK = 739616 * 86400000000"

definition db_empty :: db where
  "db_empty = \<lparr>detectors = [], readings = []\<rparr>"

definition row_north :: detector_row where
  "row_north =
     \<lparr>det_id = ''a1b2c3d4'', det_name = ''north'', det_location = ''hall'',
      det_type = ''he3_tube'', det_sensitivity = 1, det_baseline_cps = 0,
      det_status = ''online'', det_last_calibration = CLOCK, det_alert_threshold = 100\<rparr>"

definition db_north :: db where
  "db_north = \<lparr>detectors = [row_north], readings = []\<rparr>"

definition reading_5 :: NeutronReading where
  "reading_5 =
     \<lparr>detector_id = ''a1b2c3d4'', cps = 5,
      dose_usv_h = 1152921504606847 / 36028797018963968, timestamp = CLOCK,
      alert_triggered = False\<rparr>"

definition db_north_5 :: db where
  "db_north_5 = \<lparr>detectors = [row_north], readings = [reading_5]\<rparr>"

definition db_north_5_5 :: db where
  "db_north_5_5 = \<lparr>detectors = [row_north], readings = [reading_5, reading_5]\<rparr>"

text \<open>A detector calibrated to a baseline of 10, and one that has no reading.\<close>

definition row_south :: detector_row where
  "row_south =
     \<lparr>det_id = ''0f9e8d7c'', det_name = ''south'', det_location = ''yard'',
      det_type = ''scintillator'', det_sensitivity = 1, det_baseline_cps = 10,
      det_status = ''online'', det_last_calibration = CLOCK, det_alert_threshold = 100\<rparr>"

definition row_idle :: detector_row where
  "row_idle =
     \<lparr>det_id = ''5566778f'', det_name = ''idle'', det_location = ''roof'',
      det_type = ''boron_lined'', det_sensitivity = 1, det_baseline_cps = 0,
      det_status = ''online'', det_last_calibration = CLOCK, det_alert_threshold = 100\<rparr>"

definition reading_s10 :: NeutronReading where
  "reading_s10 =
     \<lparr>detector_id = ''0f9e8d7c'', cps = 10,
      dose_usv_h = 990791918021509 / 18014398509481984, timestamp = CLOCK,
      alert_triggered = False\<rparr>"

definition reading_s50 :: NeutronReading where
  "reading_s50 =
     \<lparr>detector_id = ''0f9e8d7c'', cps = 50,
      dose_usv_h = 4953959590107545 / 18014398509481984,
      timestamp = CLOCK + 1000000, alert_triggered = False\<rparr>"

definition db_south_10 :: db where
  "db_south_10 = \<lparr>detectors = [row_south, row_idle], readings = [reading_s10]\<rparr>"

definition db_fleet :: db where
  "db_fleet = \<lparr>detectors = [row_south, row_idle], readings = [reading_s10, reading_s50]\<rparr>"

definition db_mixed :: db where
  "db_mixed =
     \<lparr>detectors = [row_south, row_north],
      readings = [reading_s10, reading_s50, reading_5]\<rparr>"

text \<open>Three readings of 1, 2 and 2 cps, a second apart: their mean is not a double.\<close>

definition db_thirds :: db where
  "db_thirds =
     \<lparr>detectors = [row_south, row_idle],
      readings =
        [\<lparr>detector_id = ''0f9e8d7c'', cps = 1,
          dose_usv_h = 3170534137668829 / 576460752303423488, timestamp = CLOCK,
          alert_triggered = False\<rparr>,
         \<lparr>detector_id = ''0f9e8d7c'', cps = 2,
          dose_usv_h = 3170534137668829 / 288230376151711744, timestamp = CLOCK + 1000000,
          alert_triggered = False\<rparr>,
         \<lparr>detector_id = ''0f9e8d7c'', cps = 2,
          dose_usv_h = 3170534137668829 / 288230376151711744, timestamp = CLOCK + 2000000,
          alert_triggered = False\<rparr>]\<rparr>"

section \<open>Facts about the float arithmetic\<close>

lemmas example_defs =
  db_empty_def db_north_def row_north_def reading_5_def db_north_5_def db_north_5_5_def
  row_south_def row_idle_def reading_s10_def reading_s50_def db_south_10_def db_fleet_def
  db_mixed_def db_thirds_def

lemmas evaluation_defs =
  fetch_detector_def latest_reading_def hours_before_def DATETIME_MAX_def CLOCK_def
  get_spectrum_def select_spectrum_def

lemma binary64_zero: "binary64 0 = 0"
  by (simp add: binary64_def)

text \<open>The conversion factors of the two detector types used in the examples.\<close>

lemma binary64_0064: "binary64 0.0064 = 7378697629483821 / 1152921504606846976"
  unfolding binary64_def Let_def
  apply (simp add: float_exponent_def bit_length.simps)
  apply (simp add: pow2_def)
  apply (simp add: round_half_even_def Let_def)
  done

lemma binary64_0055: "binary64 0.0055 = 3170534137668829 / 576460752303423488"
  unfolding binary64_def Let_def
  apply (simp add: float_exponent_def bit_length.simps)
  apply (simp add: pow2_def)
  apply (simp add: round_half_even_def Let_def)
  done

text \<open>The doses of the example readings.\<close>

lemma dose_5:
  "float_mul 5 (7378697629483821 / 1152921504606846976) = 1152921504606847 / 36028797018963968"
  unfolding float_mul_def binary64_def Let_def
  apply (simp add: float_exponent_def bit_length.simps)
  apply (simp add: pow2_def)
  apply (simp add: round_half_even_def Let_def)
  done

lemma dose_s10:
  "float_mul 10 (3170534137668829 / 576460752303423488) = 990791918021509 / 18014398509481984"
  unfolding float_mul_def binary64_def Let_def
  apply (simp add: float_exponent_def bit_length.simps)
  apply (simp add: pow2_def)
  apply (simp add: round_half_even_def Let_def)
  done

lemma dose_s50:
  "float_mul 50 (3170534137668829 / 576460752303423488) = 4953959590107545 / 18014398509481984"
  unfolding float_mul_def binary64_def Let_def
  apply (simp add: float_exponent_def bit_length.simps)
  apply (simp add: pow2_def)
  apply (simp add: round_half_even_def Let_def)
  done




lemma binary64_30: "binary64 30 = 30"
  unfolding binary64_def Let_def
  apply (simp add: float_exponent_def bit_length.simps)
  apply (simp add: pow2_def)
  apply (simp add: round_half_even_def Let_def)
  done


text \<open>
  The rounding is what its description says: \<open>float_exponent\<close> brackets a positive
  number between two consecutive powers of two, and \<open>binary64 x\<close> is a multiple of the
  spacing at \<open>x\<close> that lies within half a spacing of \<open>x\<close>.
\<close>

lemma bit_length_bounds:
  "0 < n \<Longrightarrow> 2 ^ (bit_length n - 1) \<le> n \<and> n < 2 ^ bit_length n"
proof (induction n rule: bit_length.induct)
  case (1 n)
  show ?case
  proof (cases "n div 2 = 0")
    case True
    with "1.prems" have "n = 1" by (simp add: div_eq_0_iff)
    then show ?thesis by (simp add: bit_length.simps)
  next
    case False
    with "1.IH" "1.prems" have ih: "2 ^ (bit_length (n div 2) - 1) \<le> n div 2"
      "n div 2 < 2 ^ bit_length (n div 2)" by auto
    have pos: "0 < bit_length (n div 2)"
      using False by (simp add: bit_length.simps)
    have bl: "bit_length n = Suc (bit_length (n div 2))"
      using "1.prems" by (subst bit_length.simps) simp
    from pos obtain k where k: "bit_length (n div 2) = Suc k" by (cases "bit_length (n div 2)") auto
    from ih k have "2 * 2 ^ k \<le> 2 * (n div 2)" by simp
    also have "\<dots> \<le> n" by simp
    finally have lo: "2 ^ (bit_length n - 1) \<le> n" using bl k by simp
    from ih(2) have "n < 2 * 2 ^ bit_length (n div 2)" by linarith
    then have hi: "n < 2 ^ bit_length n" using bl by simp
    from lo hi show ?thesis by simp
  qed
qed


lemma pow2_nat: "pow2 (int k) = 2 ^ k"
  by (simp add: pow2_def)

lemma pow2_neg: "pow2 (- int k) = 1 / 2 ^ k"
  by (cases k) (simp_all add: pow2_def nat_add_distrib)

lemma float_exponent_bounds:
  assumes "0 < a"
  shows "pow2 (float_exponent a) \<le> a \<and> a < pow2 (float_exponent a + 1)"
proof (cases "1 \<le> a")
  case True
  let ?n = "nat \<lfloor>a\<rfloor>"
  from True have n: "0 < ?n" by simp
  from bit_length_bounds [OF n] have lo: "2 ^ (bit_length ?n - 1) \<le> ?n"
    and hi: "?n < 2 ^ bit_length ?n" by auto
  from n hi have blpos: "0 < bit_length ?n" by (cases "bit_length ?n") auto
  have e: "float_exponent a = int (bit_length ?n - 1)"
    using True blpos by (simp add: float_exponent_def)
  have e1: "float_exponent a + 1 = int (bit_length ?n)"
    using e blpos by simp
  have "real ?n \<le> a" using True by simp
  moreover from lo have "(2::real) ^ (bit_length ?n - 1) \<le> real ?n"
    by (metis of_nat_le_iff of_nat_numeral of_nat_power)
  ultimately have L: "pow2 (float_exponent a) \<le> a"
    unfolding e pow2_nat by linarith
  from hi have "Suc ?n \<le> 2 ^ bit_length ?n" by (rule Suc_leI)
  then have "real (Suc ?n) \<le> 2 ^ bit_length ?n"
    by (metis of_nat_le_iff of_nat_numeral of_nat_power)
  moreover have "a < real (Suc ?n)" using True by simp linarith
  ultimately have H: "a < pow2 (float_exponent a + 1)"
    unfolding e1 pow2_nat by linarith
  from L H show ?thesis by simp
next
  case False
  let ?y = "1 / a"
  let ?m = "nat (\<lceil>?y\<rceil> - 1)"
  from False assms have y1: "1 < ?y" by simp
  then have c2: "2 \<le> \<lceil>?y\<rceil>" by linarith
  then have m: "0 < ?m" by simp
  from bit_length_bounds [OF m] have lo: "2 ^ (bit_length ?m - 1) \<le> ?m"
    and hi: "?m < 2 ^ bit_length ?m" by auto
  from m hi have blpos: "0 < bit_length ?m" by (cases "bit_length ?m") auto
  have e: "float_exponent a = - int (bit_length ?m)"
    using False by (simp add: float_exponent_def)
  from c2 have "0 \<le> \<lceil>?y\<rceil> - 1" by linarith
  then have "int ?m = \<lceil>?y\<rceil> - 1" by (simp only: int_nat_eq if_True)
  then have mreal: "real ?m = real_of_int \<lceil>?y\<rceil> - 1"
    by (metis of_int_1 of_int_diff of_int_of_nat_eq)
  from hi have "Suc ?m \<le> 2 ^ bit_length ?m" by (rule Suc_leI)
  then have "real (Suc ?m) \<le> 2 ^ bit_length ?m"
    by (metis of_nat_le_iff of_nat_numeral of_nat_power)
  moreover have "real (Suc ?m) = real ?m + 1" by simp
  ultimately have "?y \<le> 2 ^ bit_length ?m"
    using mreal ceiling_correct [of ?y] by linarith
  then have "1 \<le> a * 2 ^ bit_length ?m"
    using assms by (simp add: field_simps)
  then have L: "pow2 (float_exponent a) \<le> a"
    unfolding e pow2_neg by (simp add: field_simps)
  from lo have "(2::real) ^ (bit_length ?m - 1) \<le> real ?m"
    by (metis of_nat_le_iff of_nat_numeral of_nat_power)
  then have "2 ^ (bit_length ?m - 1) < ?y"
    using mreal ceiling_correct [of ?y] by linarith
  then have lt: "a * 2 ^ (bit_length ?m - 1) < 1"
    using assms by (simp add: field_simps)
  have e1: "float_exponent a + 1 = - int (bit_length ?m - 1)"
    using e blpos by simp
  have H: "a < pow2 (float_exponent a + 1)"
    unfolding e1 pow2_neg using lt by (simp add: field_simps)
  from L H show ?thesis by simp
qed

lemma round_half_even_nearest: "\<bar>of_int (round_half_even y) - y\<bar> \<le> 1 / 2"
  unfolding round_half_even_def Let_def by (auto split: if_splits)


lemma pow2_pos: "0 < pow2 k"
  by (simp add: pow2_def)

lemma binary64_nearest:
  assumes "x \<noteq> 0"
  shows "\<bar>binary64 x - x\<bar> \<le> pow2 (max (float_exponent \<bar>x\<bar>) (- 1022) - 52) / 2"
proof -
  let ?q = "pow2 (max (float_exponent \<bar>x\<bar>) (- 1022) - 52)"
  let ?m = "real_of_int (round_half_even (\<bar>x\<bar> / ?q))"
  have q: "0 < ?q" by (rule pow2_pos)
  have b: "binary64 x = sgn x * ?m * ?q"
    using assms by (simp add: binary64_def Let_def)
  have "binary64 x - x = sgn x * (?m * ?q - \<bar>x\<bar>)"
  proof -
    have "\<bar>x\<bar> * sgn x = x" by (simp add: sgn_real_def)
    then show ?thesis unfolding b by (simp add: algebra_simps)
  qed
  then have "\<bar>binary64 x - x\<bar> = \<bar>?m * ?q - \<bar>x\<bar>\<bar>"
    using assms by (simp add: abs_mult abs_sgn_eq)
  also have "?m * ?q - \<bar>x\<bar> = (?m - \<bar>x\<bar> / ?q) * ?q"
    using q by (simp add: field_simps)
  also have "\<bar>(?m - \<bar>x\<bar> / ?q) * ?q\<bar> = \<bar>?m - \<bar>x\<bar> / ?q\<bar> * ?q"
    using q by (simp add: abs_mult)
  also have "\<dots> \<le> 1 / 2 * ?q"
    using round_half_even_nearest [of "\<bar>x\<bar> / ?q"] q
    by (intro mult_right_mono) simp_all
  finally show ?thesis by simp
qed

section \<open>Facts about the queries\<close>

lemma find_snoc_fresh: "find P xs = None \<Longrightarrow> P x \<Longrightarrow> find P (xs @ [x]) = Some x"
  by (induction xs) (auto split: if_splits)

lemma sort_key_Cons_least:
  assumes "sort_key k xs = y # ys"
  shows "y \<in> set xs \<and> (\<forall>x\<in>set xs. k y \<le> k x)"
proof -
  have "set (sort_key k xs) = set xs" by simp
  with assms have mem: "set xs = insert y (set ys)" by simp
  have "sorted (map k (sort_key k xs))" by (rule sorted_sort_key)
  with assms have "\<forall>x\<in>set ys. k y \<le> k x" by simp
  with mem show ?thesis by auto
qed

text \<open>The latest reading is absent exactly when the detector has no reading at all.\<close>

lemma latest_reading_None:
  "latest_reading s did = None \<longleftrightarrow> (\<forall>r\<in>set (readings s). detector_id r \<noteq> did)"
proof -
  have "latest_reading s did = None \<longleftrightarrow>
        sort_key (\<lambda>r. - timestamp r) (filter (\<lambda>r. detector_id r = did) (readings s)) = []"
    by (simp add: latest_reading_def split: list.splits)
  also have "\<dots> \<longleftrightarrow> filter (\<lambda>r. detector_id r = did) (readings s) = []"
    by (metis length_sort length_0_conv)
  also have "\<dots> \<longleftrightarrow> (\<forall>r\<in>set (readings s). detector_id r \<noteq> did)"
    by (simp add: filter_empty_conv)
  finally show ?thesis .
qed

text \<open>It is a stored reading of the detector, and none of the detector's is later.\<close>

lemma latest_reading_Some:
  assumes "latest_reading s did = Some r"
  shows "r \<in> set (readings s) \<and> detector_id r = did \<and>
         (\<forall>r'\<in>set (readings s). detector_id r' = did \<longrightarrow> timestamp r' \<le> timestamp r)"
proof -
  from assms obtain rest where
    "sort_key (\<lambda>r. - timestamp r) (filter (\<lambda>r. detector_id r = did) (readings s)) = r # rest"
    by (auto simp: latest_reading_def split: list.splits)
  from sort_key_Cons_least [OF this] show ?thesis by auto
qed

lemma find_snoc_other: "\<not> P x \<Longrightarrow> find P (xs @ [x]) = find P xs"
  by (induction xs) auto

section \<open>The example stores are built by the operations\<close>

lemma factor_he3_tube:
  "dict_get CPS_TO_DOSE ''he3_tube'' dflt = 7378697629483821 / 1152921504606846976"
  unfolding dict_get_def CPS_TO_DOSE_def binary64_0064 by simp

lemma factor_scintillator:
  "dict_get CPS_TO_DOSE ''scintillator'' dflt = 3170534137668829 / 576460752303423488"
  unfolding dict_get_def CPS_TO_DOSE_def binary64_0055 by simp

lemma register_north:
  "register_detector db_empty ''a1b2c3d4'' CLOCK ''north'' ''hall'' ''he3_tube'' 1 =
     Inr (db_north, ''a1b2c3d4'')"
  by (simp add: register_detector_def example_defs)

lemma record_north_5:
  "record_reading db_north ''a1b2c3d4'' 5 CLOCK = Inr (db_north_5, reading_5)"
  by (simp add: record_reading_def fetch_detector_def factor_he3_tube dose_5 Let_def
        example_defs)

lemma record_north_5_again:
  "record_reading db_north_5 ''a1b2c3d4'' 5 CLOCK = Inr (db_north_5_5, reading_5)"
  by (simp add: record_reading_def fetch_detector_def factor_he3_tube dose_5 Let_def
        example_defs)

lemma record_south_10:
  "record_reading \<lparr>detectors = [row_south, row_idle], readings = []\<rparr> ''0f9e8d7c'' 10 CLOCK =
     Inr (db_south_10, reading_s10)"
  by (simp add: record_reading_def fetch_detector_def factor_scintillator dose_s10 Let_def
        example_defs)

lemma record_south_50:
  "record_reading db_south_10 ''0f9e8d7c'' 50 (CLOCK + 1000000) = Inr (db_fleet, reading_s50)"
  by (simp add: record_reading_def fetch_detector_def factor_scintillator dose_s50 Let_def
        example_defs)

section \<open>Registration\<close>

text \<open>
  Claim C2, as the code has it. \<^verbatim>\<open>register_detector\<close> validates nothing. For every
  name, location and type, empty or unrecognised ones included: when the token is not
  yet a stored id, the call returns the token and the new store is the old one with one
  row appended, which holds these fields, baseline 0, status online and threshold 100
  (the readings and every other detector are as before); when the token is a stored id,
  the primary key rejects the insertion. There is no other failure.
\<close>

theorem register_detector_accepts_all:
  "let row = \<lparr>det_id = new_id, det_name = nm, det_location = loc,
               det_type = detector_type, det_sensitivity = sensitivity,
               det_baseline_cps = 0, det_status = ''online'',
               det_last_calibration = now, det_alert_threshold = 100\<rparr>;
       s' = s\<lparr>detectors := detectors s @ [row]\<rparr>
   in (new_id \<notin> set (map det_id (detectors s)) \<longrightarrow>
         register_detector s new_id now nm loc detector_type sensitivity = Inr (s', new_id) \<and>
         fetch_detector s' new_id = Some row \<and>
         (\<forall>other. other \<noteq> new_id \<longrightarrow> fetch_detector s' other = fetch_detector s other)) \<and>
      (new_id \<in> set (map det_id (detectors s)) \<longrightarrow>
         register_detector s new_id now nm loc detector_type sensitivity =
           Inl IntegrityError)"
proof -
  let ?row = "\<lparr>det_id = new_id, det_name = nm, det_location = loc,
               det_type = detector_type, det_sensitivity = sensitivity,
               det_baseline_cps = 0, det_status = ''online'',
               det_last_calibration = now, det_alert_threshold = 100\<rparr>"
  let ?s' = "s\<lparr>detectors := detectors s @ [?row]\<rparr>"
  have stored: "new_id \<in> set (map det_id (detectors s)) \<Longrightarrow>
      register_detector s new_id now nm loc detector_type sensitivity = Inl IntegrityError"
    by (simp add: register_detector_def)
  have fresh: "register_detector s new_id now nm loc detector_type sensitivity =
        Inr (?s', new_id) \<and> fetch_detector ?s' new_id = Some ?row"
    if "new_id \<notin> set (map det_id (detectors s))"
  proof -
    from that have "find (\<lambda>d. det_id d = new_id) (detectors s) = None"
      by (auto simp: find_None_iff)
    from find_snoc_fresh [OF this] that show ?thesis
      by (simp add: register_detector_def fetch_detector_def)
  qed
  have others: "\<forall>other. other \<noteq> new_id \<longrightarrow> fetch_detector ?s' other = fetch_detector s other"
    by (simp add: fetch_detector_def find_snoc_other)
  from stored fresh others show ?thesis
    unfolding Let_def by blast
qed

text \<open>
  On a store that holds one detector: an empty name, an empty location and the type
  \<open>geiger\<close> are registered under a fresh token, and the stored token is rejected.
\<close>

theorem register_detector_accepts_all_witness:
  "''0f9e8d7c'' \<notin> set (map det_id (detectors db_north)) \<and>
   register_detector db_north ''0f9e8d7c'' CLOCK [] [] ''geiger'' 1 =
     Inr (\<lparr>detectors =
             [row_north,
              \<lparr>det_id = ''0f9e8d7c'', det_name = [], det_location = [],
                det_type = ''geiger'', det_sensitivity = 1, det_baseline_cps = 0,
                det_status = ''online'', det_last_calibration = CLOCK,
                det_alert_threshold = 100\<rparr>],
            readings = []\<rparr>,
          ''0f9e8d7c'') \<and>
   ''a1b2c3d4'' \<in> set (map det_id (detectors db_north)) \<and>
   register_detector db_north ''a1b2c3d4'' CLOCK [] [] ''geiger'' 1 = Inl IntegrityError"
  using register_detector_accepts_all [of "''0f9e8d7c''" "[]" "[]" "''geiger''" 1 CLOCK db_north]
        register_detector_accepts_all [of "''a1b2c3d4''" "[]" "[]" "''geiger''" 1 CLOCK db_north]
  by (simp add: register_detector_def example_defs)

text \<open>
  Claim C2 as stated fails: with an empty name, an empty location and the type
  \<open>geiger\<close>, which is none of the five, the call returns the token and the record is
  stored.
\<close>

theorem register_detector_empty_name_counterexample:
  "register_detector db_empty ''a1b2c3d4'' CLOCK [] [] ''geiger'' 1 =
     Inr (\<lparr>detectors =
             [\<lparr>det_id = ''a1b2c3d4'', det_name = [], det_location = [],
               det_type = ''geiger'', det_sensitivity = 1, det_baseline_cps = 0,
               det_status = ''online'', det_last_calibration = CLOCK,
               det_alert_threshold = 100\<rparr>],
            readings = []\<rparr>,
          ''a1b2c3d4'')"
  by (simp add: register_detector_def db_empty_def)

section \<open>Recording a reading\<close>

text \<open>
  Claim C3. For a registered detector the alert flag of the reading that
  \<^verbatim>\<open>record_reading\<close> stores and returns is \<open>cps > threshold\<close>, for the threshold stored
  when the call is made; and \<^verbatim>\<open>set_threshold\<close>, on any store, leaves the table of
  readings, alert flags included, as it was.
\<close>

theorem alert_flag_at_insertion:
  assumes "fetch_detector s did = Some row"
  shows "(\<exists>r. record_reading s did c now = Inr (s\<lparr>readings := readings s @ [r]\<rparr>, r) \<and>
              alert_triggered r = (c > det_alert_threshold row)) \<and>
         readings (fst (set_threshold s' did' alert_cps)) = readings s'"
  using assms by (simp add: record_reading_def set_threshold_def Let_def)

theorem alert_flag_at_insertion_witness:
  "fetch_detector db_north ''a1b2c3d4'' = Some row_north \<and>
   record_reading db_north ''a1b2c3d4'' 5 CLOCK = Inr (db_north_5, reading_5) \<and>
   alert_triggered reading_5 = (5 > det_alert_threshold row_north) \<and>
   readings (fst (set_threshold db_north_5 ''a1b2c3d4'' 1)) = [reading_5]"
  using alert_flag_at_insertion [of db_north "''a1b2c3d4''" row_north 5 CLOCK db_north_5 "''a1b2c3d4''" 1]
  unfolding record_north_5
  by (simp add: set_threshold_def fetch_detector_def example_defs)

text \<open>
  Claim C4. For a registered detector of type \<open>T\<close> the reading that \<^verbatim>\<open>record_reading\<close>
  returns has as dose the float product of the cps and the factor of \<open>T\<close>: the double
  written 0.0064, 0.0042, 0.0055, 0.0075 or 0.0045 for the five types of the table, and
  the double written 0.005 for every other type.
\<close>

theorem dose_conversion:
  assumes "fetch_detector s did = Some row"
  shows "\<exists>r. record_reading s did c now = Inr (s\<lparr>readings := readings s @ [r]\<rparr>, r) \<and>
             dose_usv_h r =
               float_mul c
                 (if det_type row = ''he3_tube'' then binary64 0.0064
                  else if det_type row = ''boron_lined'' then binary64 0.0042
                  else if det_type row = ''scintillator'' then binary64 0.0055
                  else if det_type row = ''fission_chamber'' then binary64 0.0075
                  else if det_type row = ''activation_foil'' then binary64 0.0045
                  else binary64 0.005)"
  using assms by (simp add: record_reading_def Let_def dict_get_def CPS_TO_DOSE_def)

text \<open>
  50 cps on the scintillator: the dose is the double that Python prints as
  0.27499999999999997, which is not 0.275.
\<close>

theorem dose_conversion_witness:
  "fetch_detector db_south_10 ''0f9e8d7c'' = Some row_south \<and>
   record_reading db_south_10 ''0f9e8d7c'' 50 (CLOCK + 1000000) = Inr (db_fleet, reading_s50) \<and>
   dose_usv_h reading_s50 = float_mul 50 (binary64 0.0055) \<and>
   dose_usv_h reading_s50 = 4953959590107545 / 18014398509481984 \<and>
   dose_usv_h reading_s50 \<noteq> 275 / 1000"
  using dose_conversion [of db_south_10 "''0f9e8d7c''" row_south 50 "CLOCK + 1000000"]
  unfolding record_south_50 binary64_0055 dose_s50
  by (simp add: fetch_detector_def example_defs)

text \<open>
  Claim C9, as the code has it. For an identifier that is not in the store,
  \<^verbatim>\<open>record_reading\<close> raises the built-in \<open>ValueError\<close> with the message
  \<open>Detector <id> not found\<close>. The exception is raised before the \<^verbatim>\<open>INSERT\<close>, so the
  call leaves no new store behind: no reading is inserted.
\<close>

theorem record_reading_unknown_detector:
  assumes "fetch_detector s did = None"
  shows "record_reading s did c now = Inl (ValueError (''Detector '' @ did @ '' not found''))"
  using assms by (simp add: record_reading_def)

theorem record_reading_unknown_detector_witness:
  "fetch_detector db_north ''deadbeef'' = None \<and>
   record_reading db_north ''deadbeef'' 5 CLOCK = Inl (ValueError ''Detector deadbeef not found'')"
  using record_reading_unknown_detector [of db_north "''deadbeef''" 5 CLOCK]
  by (simp add: fetch_detector_def example_defs)

text \<open>
  Claim C9 as stated fails on the class of the exception: it is \<open>ValueError\<close>, and the
  source defines no \<open>NotFoundError\<close>.
\<close>

theorem record_reading_not_found_class_counterexample:
  "record_reading db_empty ''deadbeef'' 5 CLOCK = Inl (ValueError ''Detector deadbeef not found'') \<and>
   class_name (ValueError ''Detector deadbeef not found'') \<noteq> ''NotFoundError''"
  by (simp add: record_reading_def fetch_detector_def db_empty_def)

section \<open>Setting the threshold\<close>

text \<open>
  Claim C10. \<^verbatim>\<open>set_threshold\<close> reports success for every identifier and every
  threshold; when the identifier is not in the store the store is left as it was.
\<close>

theorem set_threshold_always_true:
  "snd (set_threshold s did alert_cps) = True \<and>
   (fetch_detector s did = None \<longrightarrow> fst (set_threshold s did alert_cps) = s)"
proof -
  have "fetch_detector s did = None \<Longrightarrow>
        map (\<lambda>d. if det_id d = did then d\<lparr>det_alert_threshold := alert_cps\<rparr> else d)
          (detectors s) = detectors s"
    by (induction "detectors s") (auto simp: fetch_detector_def find_None_iff intro: map_idI)
  then show ?thesis
    by (simp add: set_threshold_def)
qed

theorem set_threshold_always_true_witness:
  "fetch_detector db_north ''deadbeef'' = None \<and>
   set_threshold db_north ''deadbeef'' 5 = (db_north, True)"
  using set_threshold_always_true [of db_north "''deadbeef''" 5]
  by (simp add: fetch_detector_def set_threshold_def example_defs)

section \<open>Fleet status\<close>

lemma fleet_loop_ids:
  "map st_id (fleet_loop s ds acc) =
   map st_id acc @ filter (\<lambda>i. \<exists>r\<in>set (readings s). detector_id r = i) (map det_id ds)"
proof (induction ds arbitrary: acc)
  case Nil
  then show ?case by simp
next
  case (Cons d ds)
  show ?case
  proof (cases "latest_reading s (det_id d)")
    case None
    then have "\<not> (\<exists>r\<in>set (readings s). detector_id r = det_id d)"
      by (simp add: latest_reading_None)
    then show ?thesis using None Cons.IH [of acc] by simp
  next
    case (Some r)
    then have "\<exists>r\<in>set (readings s). detector_id r = det_id d"
      using latest_reading_Some by blast
    then show ?thesis using Some Cons.IH by simp
  qed
qed

lemma fleet_loop_entries:
  assumes "e \<in> set (fleet_loop s ds acc)"
  shows "e \<in> set acc \<or>
         (\<exists>d\<in>set ds. \<exists>r. latest_reading s (det_id d) = Some r \<and>
            e = \<lparr>st_id = det_id d, st_name = det_name d, st_location = det_location d,
                 st_type = det_type d, st_status = det_status d, st_cps = cps r,
                 st_dose_usv_h = dose_usv_h r, st_timestamp = timestamp r\<rparr>)"
  using assms
proof (induction ds arbitrary: acc)
  case Nil
  then show ?case by simp
next
  case (Cons d ds)
  show ?case
  proof (cases "latest_reading s (det_id d)")
    case None
    with Cons.prems have "e \<in> set (fleet_loop s ds acc)" by simp
    from Cons.IH [OF this] show ?thesis by auto
  next
    case (Some r)
    let ?n = "\<lparr>st_id = det_id d, st_name = det_name d, st_location = det_location d,
                 st_type = det_type d, st_status = det_status d, st_cps = cps r,
                 st_dose_usv_h = dose_usv_h r, st_timestamp = timestamp r\<rparr>"
    from Some Cons.prems have "e \<in> set (fleet_loop s ds (acc @ [?n]))" by simp
    from Cons.IH [OF this] Some show ?thesis by auto
  qed
qed

text \<open>
  Claim C7. The identifiers of the entries of \<^verbatim>\<open>fleet_status\<close> are, in table order and
  once each, the identifiers of the detector rows that have at least one stored
  reading: a detector without readings has no entry. Every entry is built from a detector
  row and a stored reading of that detector than which none of its readings is later,
  and carries that reading's cps, dose and timestamp.
\<close>

theorem fleet_status_entries:
  "map st_id (fleet_status s) =
     filter (\<lambda>i. \<exists>r\<in>set (readings s). detector_id r = i) (map det_id (detectors s)) \<and>
   (\<forall>e\<in>set (fleet_status s). \<exists>d\<in>set (detectors s). \<exists>r\<in>set (readings s).
      detector_id r = det_id d \<and>
      (\<forall>r'\<in>set (readings s). detector_id r' = det_id d \<longrightarrow> timestamp r' \<le> timestamp r) \<and>
      e = \<lparr>st_id = det_id d, st_name = det_name d, st_location = det_location d,
           st_type = det_type d, st_status = det_status d, st_cps = cps r,
           st_dose_usv_h = dose_usv_h r, st_timestamp = timestamp r\<rparr>)"
proof -
  have ids: "map st_id (fleet_status s) =
     filter (\<lambda>i. \<exists>r\<in>set (readings s). detector_id r = i) (map det_id (detectors s))"
    using fleet_loop_ids [of s "detectors s" "[]"] by (simp add: fleet_status_def)
  have ent: "\<exists>d\<in>set (detectors s). \<exists>r\<in>set (readings s).
      detector_id r = det_id d \<and>
      (\<forall>r'\<in>set (readings s). detector_id r' = det_id d \<longrightarrow> timestamp r' \<le> timestamp r) \<and>
      e = \<lparr>st_id = det_id d, st_name = det_name d, st_location = det_location d,
           st_type = det_type d, st_status = det_status d, st_cps = cps r,
           st_dose_usv_h = dose_usv_h r, st_timestamp = timestamp r\<rparr>"
    if "e \<in> set (fleet_status s)" for e
  proof -
    from that fleet_loop_entries [of e s "detectors s" "[]"]
    obtain d r where d: "d \<in> set (detectors s)" and l: "latest_reading s (det_id d) = Some r"
      and e: "e = \<lparr>st_id = det_id d, st_name = det_name d, st_location = det_location d,
           st_type = det_type d, st_status = det_status d, st_cps = cps r,
           st_dose_usv_h = dose_usv_h r, st_timestamp = timestamp r\<rparr>"
      by (auto simp: fleet_status_def)
    from latest_reading_Some [OF l] d e show ?thesis by blast
  qed
  from ids ent show ?thesis by blast
qed

text \<open>
  On the store with a detector that has two readings and one that has none, the only
  entry is the first detector's, with its later reading.
\<close>

theorem fleet_status_entries_witness:
  "map det_id (detectors db_fleet) = [''0f9e8d7c'', ''5566778f''] \<and>
   fleet_status db_fleet =
     [\<lparr>st_id = ''0f9e8d7c'', st_name = ''south'', st_location = ''yard'',
       st_type = ''scintillator'', st_status = ''online'', st_cps = 50,
       st_dose_usv_h = 4953959590107545 / 18014398509481984,
       st_timestamp = CLOCK + 1000000\<rparr>]"
  using fleet_status_entries [of db_fleet]
  by (simp add: fleet_status_def evaluation_defs example_defs)

section \<open>Anomaly scan\<close>

text \<open>
  When no detector row has baseline 0 the scan returns, in table order, one entry for
  each detector whose latest reading exceeds the float product of its baseline and 3,
  with the float quotient rounded to two decimals as multiplier.
\<close>

lemma anomaly_loop_no_zero_baseline:
  assumes "\<forall>d\<in>set ds. det_baseline_cps d \<noteq> 0"
  shows "anomaly_loop s ds acc =
         Inr (acc @ concat (map (\<lambda>d. case latest_reading s (det_id d) of
                None \<Rightarrow> []
              | Some r \<Rightarrow>
                  if cps r > float_mul (det_baseline_cps d) 3
                  then [\<lparr>an_detector_id = det_id d, an_baseline_cps = det_baseline_cps d,
                         an_current_cps = cps r,
                         an_multiplier = py_round2 (binary64 (cps r / det_baseline_cps d)),
                         an_timestamp = timestamp r\<rparr>]
                  else []) ds))"
  using assms
  by (induction ds arbitrary: acc) (simp_all add: Let_def py_truediv_def split: option.splits)

text \<open>
  The scan raises \<open>ZeroDivisionError\<close> exactly when some detector row has baseline 0
  and a latest reading with positive cps.
\<close>

lemma float_mul_zero: "float_mul 0 b = 0"
  by (simp add: float_mul_def binary64_zero)

lemma anomaly_loop_raises:
  "anomaly_loop s ds acc = Inl ZeroDivisionError \<longleftrightarrow>
   (\<exists>d\<in>set ds. det_baseline_cps d = 0 \<and>
      (\<exists>r. latest_reading s (det_id d) = Some r \<and> cps r > 0))"
  by (induction ds arbitrary: acc)
     (auto simp: Let_def py_truediv_def float_mul_zero split: option.splits if_splits)

lemma anomaly_scan_raises:
  "anomaly_scan s = Inl ZeroDivisionError \<longleftrightarrow>
   (\<exists>d\<in>set (detectors s). det_baseline_cps d = 0 \<and>
      (\<exists>r. latest_reading s (det_id d) = Some r \<and> cps r > 0))"
  by (simp only: anomaly_scan_def anomaly_loop_raises)

text \<open>The multiplier rounds the double, not the exact quotient: 127 / 40 gives 3.17.\<close>

lemma py_round2_example:
  "py_round2 (binary64 (127 / 40)) = 1784551352345559 / 562949953421312"
proof -
  have q: "binary64 (127 / 40) = 3574732204225331 / 1125899906842624"
    unfolding binary64_def Let_def
    apply (simp add: float_exponent_def bit_length.simps)
    apply (simp add: pow2_def)
    apply (simp add: round_half_even_def Let_def)
    done
  have r: "round_half_even (3574732204225331 / 1125899906842624 * 100) = 317"
    by (simp add: round_half_even_def Let_def)
  have b: "binary64 (317 / 100) = 1784551352345559 / 562949953421312"
    unfolding binary64_def Let_def
    apply (simp add: float_exponent_def bit_length.simps)
    apply (simp add: pow2_def)
    apply (simp add: round_half_even_def Let_def)
    done
  show ?thesis
    unfolding py_round2_def q r using b by simp
qed

text \<open>
  Claim C1 fails on the code. A detector is registered (its baseline is 0), one reading
  of 5 cps is recorded, and \<^verbatim>\<open>anomaly_scan\<close> raises \<open>ZeroDivisionError\<close>: 5 exceeds
  3 times 0, and the multiplier divides by the baseline unguarded.
\<close>

theorem anomaly_scan_zero_baseline_raises:
  "register_detector db_empty ''a1b2c3d4'' CLOCK ''north'' ''hall'' ''he3_tube'' 1 =
     Inr (db_north, ''a1b2c3d4'') \<and>
   record_reading db_north ''a1b2c3d4'' 5 CLOCK = Inr (db_north_5, reading_5) \<and>
   anomaly_scan db_north_5 = Inl ZeroDivisionError"
proof -
  have "anomaly_scan db_north_5 = Inl ZeroDivisionError"
    by (simp add: anomaly_scan_def py_truediv_def float_mul_zero Let_def evaluation_defs
          example_defs)
  with register_north record_north_5 show ?thesis by simp
qed

text \<open>
  Claim C5 fails on the code through the same division. In the store below the first
  detector has baseline 10 and a latest reading of 50 cps, more than three times the
  baseline, and the second has baseline 0 and a reading of 5 cps; the scan raises and
  returns no entry, not even the first detector's.
\<close>

theorem anomaly_scan_mixed_returns_nothing:
  "latest_reading db_mixed ''0f9e8d7c'' = Some reading_s50 \<and>
   cps reading_s50 > det_baseline_cps row_south * 3 \<and>
   anomaly_scan db_mixed = Inl ZeroDivisionError"
  by (simp add: anomaly_scan_def py_truediv_def float_mul_def binary64_zero binary64_30
        Let_def evaluation_defs example_defs)

section \<open>Spectrum and calibration\<close>

lemma select_spectrum_mset:
  "mset (select_spectrum s did since) =
   mset (map (\<lambda>r. (timestamp r, cps r))
          (filter (\<lambda>r. detector_id r = did \<and> since \<le> timestamp r) (readings s)))"
  by (simp add: select_spectrum_def)

lemma select_spectrum_sorted: "sorted (map fst (select_spectrum s did since))"
proof -
  have "map fst (select_spectrum s did since) =
        map timestamp (sort_key timestamp
          (filter (\<lambda>r. detector_id r = did \<and> since \<le> timestamp r) (readings s)))"
    by (simp add: select_spectrum_def comp_def)
  then show ?thesis by (simp only: sorted_sort_key)
qed

lemma select_spectrum_window:
  "(t, v) \<in> set (select_spectrum s did since) \<Longrightarrow> since \<le> t"
  by (auto simp: select_spectrum_def)

lemma select_spectrum_length:
  "length (select_spectrum s did since) =
   length (filter (\<lambda>r. detector_id r = did \<and> since \<le> timestamp r) (readings s))"
  by (simp add: select_spectrum_def)

lemma count_list_map_filter:
  "count_list (map f (filter P xs)) y = length (filter (\<lambda>x. P x \<and> f x = y) xs)"
  by (induction xs) simp_all

lemma select_spectrum_count:
  "count_list (select_spectrum s did since) (t, v) =
   length (filter (\<lambda>r. (detector_id r = did \<and> since \<le> timestamp r) \<and>
                          (timestamp r, cps r) = (t, v)) (readings s))"
proof -
  have "count_list (select_spectrum s did since) (t, v) =
        count (mset (select_spectrum s did since)) (t, v)"
    by (simp only: count_mset)
  also have "\<dots> = count (mset (map (\<lambda>r. (timestamp r, cps r))
          (filter (\<lambda>r. detector_id r = did \<and> since \<le> timestamp r) (readings s)))) (t, v)"
    by (simp only: select_spectrum_mset)
  also have "\<dots> = count_list (map (\<lambda>r. (timestamp r, cps r))
          (filter (\<lambda>r. detector_id r = did \<and> since \<le> timestamp r) (readings s))) (t, v)"
    by (simp only: count_mset)
  finally show ?thesis by (simp only: count_list_map_filter)
qed







text \<open>
  Claim C8, as the code has it. For a registered detector, after \<^verbatim>\<open>record_reading\<close>
  has stored \<open>cps\<close> at the clock reading \<open>now\<close>, a \<^verbatim>\<open>get_spectrum\<close> whose lower bound
  \<open>since\<close> is at or before \<open>now\<close> returns the pair \<open>(now, cps)\<close> once more often than the
  store held readings of that detector with this timestamp and this cps before the call:
  exactly once when it held none. The result is in ascending order of timestamp, every
  timestamp in it is at or after \<open>since\<close>, and it consists of the detector's stored
  readings from \<open>since\<close> on.
\<close>

theorem spectrum_after_record_reading:
  assumes "fetch_detector s did = Some row" and "hours_before now' hours = Inr since"
    and "since \<le> now"
  shows "\<exists>s' r xs. record_reading s did c now = Inr (s', r) \<and> timestamp r = now \<and> cps r = c \<and>
           get_spectrum s' did hours now' = Inr xs \<and>
           count_list xs (now, c) =
             Suc (length (filter (\<lambda>r. detector_id r = did \<and> timestamp r = now \<and> cps r = c)
                            (readings s))) \<and>
           sorted (map fst xs) \<and>
           (\<forall>(t, v)\<in>set xs. since \<le> t) \<and>
           mset xs = mset (map (\<lambda>r. (timestamp r, cps r))
                        (filter (\<lambda>r. detector_id r = did \<and> since \<le> timestamp r) (readings s')))"
proof -
  from assms(1) obtain r where
    rr: "record_reading s did c now = Inr (s\<lparr>readings := readings s @ [r]\<rparr>, r)"
    and r: "detector_id r = did" "timestamp r = now" "cps r = c"
    by (simp add: record_reading_def Let_def)
  let ?s' = "s\<lparr>readings := readings s @ [r]\<rparr>"
  let ?xs = "select_spectrum ?s' did since"
  have gs: "get_spectrum ?s' did hours now' = Inr ?xs"
    using assms(2) by (simp add: get_spectrum_def)
  have c0: "count_list ?xs (now, c) =
      length (filter (\<lambda>r. (detector_id r = did \<and> since \<le> timestamp r) \<and>
                             (timestamp r, cps r) = (now, c)) (readings ?s'))"
    by (rule select_spectrum_count)
  have eq: "filter (\<lambda>r. (detector_id r = did \<and> since \<le> timestamp r) \<and>
                         (timestamp r, cps r) = (now, c)) ys =
            filter (\<lambda>r. detector_id r = did \<and> timestamp r = now \<and> cps r = c) ys" for ys
    using assms(3) by (intro filter_cong) auto
  have cnt: "count_list ?xs (now, c) =
      Suc (length (filter (\<lambda>r. detector_id r = did \<and> timestamp r = now \<and> cps r = c)
                     (readings s)))"
    unfolding c0 eq using r by simp
  have win: "\<forall>(t, v)\<in>set ?xs. since \<le> t"
    using select_spectrum_window by blast
  from rr r gs cnt win select_spectrum_sorted [of ?s' did since]
    select_spectrum_mset [of ?s' did since]
  show ?thesis by blast
qed

text \<open>
  One reading of 5 cps recorded on a detector without readings; the spectrum of the last
  24 hours, taken a second later, holds it once.
\<close>

theorem spectrum_after_record_reading_witness:
  "fetch_detector db_north ''a1b2c3d4'' = Some row_north \<and>
   hours_before (CLOCK + 1000000) 24 = Inr (CLOCK + 1000000 - 86400000000) \<and>
   CLOCK + 1000000 - 86400000000 \<le> CLOCK \<and>
   record_reading db_north ''a1b2c3d4'' 5 CLOCK = Inr (db_north_5, reading_5) \<and>
   get_spectrum db_north_5 ''a1b2c3d4'' 24 (CLOCK + 1000000) = Inr [(CLOCK, 5)]"
  using spectrum_after_record_reading [of db_north "''a1b2c3d4''" row_north "CLOCK + 1000000" 24
          "CLOCK + 1000000 - 86400000000" CLOCK 5]
  unfolding record_north_5
  by (simp add: evaluation_defs example_defs)

text \<open>
  Claim C8 as stated fails. The clock gives the same reading to two calls of
  \<^verbatim>\<open>record_reading\<close> with the same cps; the spectrum then holds the submitted pair
  twice, not exactly once.
\<close>

theorem spectrum_repeated_counterexample:
  "record_reading db_north ''a1b2c3d4'' 5 CLOCK = Inr (db_north_5, reading_5) \<and>
   record_reading db_north_5 ''a1b2c3d4'' 5 CLOCK = Inr (db_north_5_5, reading_5) \<and>
   get_spectrum db_north_5_5 ''a1b2c3d4'' 24 CLOCK = Inr [(CLOCK, 5), (CLOCK, 5)] \<and>
   count_list [(CLOCK, 5 :: real), (CLOCK, 5)] (CLOCK, 5) \<noteq> 1"
proof -
  have "get_spectrum db_north_5_5 ''a1b2c3d4'' 24 CLOCK = Inr [(CLOCK, 5), (CLOCK, 5)]"
    by (simp add: evaluation_defs example_defs)
  with record_north_5 record_north_5_again show ?thesis by simp
qed

end
